theory Spec2Isabelle
  imports Complex_Main
begin

section \<open>Mode disentangling without state-space model: trainer and action sampler\<close>

text \<open>
  A shallow embedding of \<^verbatim>\<open>mode_disent_no_ssm/agent.py\<close> (class
  \<^verbatim>\<open>DisentTrainerNoSSM\<close>) and \<^verbatim>\<open>mode_disent_no_ssm/test/action_sampler.py\<close>
  (class \<^verbatim>\<open>ActionSamplerNoSSM\<close>).

  Python exceptions are values of the type \<open>error\<close>; a method that may raise returns
  \<open>error + 'a\<close> with \<open>Inl\<close> for the exception. A \<^verbatim>\<open>while\<close> loop whose
  termination depends on a collaborator is a \<^theory_text>\<open>partial_function\<close> in the
  option monad, \<open>None\<close> meaning that the loop runs forever.

  Tensor values are real numbers (rounding of floating point arithmetic is not part of
  the model). The per-skill step counters are a numpy array of 64-bit integers; a run
  performs one environment step per increment, so the counters stay far below
  \<open>2 ^ 63\<close> and are modelled as unbounded \<open>int\<close>.
\<close>

datatype error =
  IndexError | ValueError | ZeroDivisionError | TypeError | AttributeError
  | AssertionError | NotImplementedError

type_synonym obs = "real list"
type_synonym action = "real list"

subsection \<open>Replay memory\<close>

text \<open>
  One stored transition. The skill is passed to the memory as
  \<^verbatim>\<open>np.array([skill], dtype=np.uint8)\<close>, so the stored value is the skill modulo 256.
\<close>

record transition =
  tr_action :: action
  tr_skill :: nat
  tr_state :: obs
  tr_done :: bool

record lazy_memory =
  capacity :: nat
  mem_num_sequences :: nat
  initial_state :: "obs option"
  buff :: "transition list"
  store :: "transition list list"

text \<open>
  Modelled from the spec: the class \<^verbatim>\<open>MyLazyMemory\<close> of
  \<^verbatim>\<open>mode_disent/memory/memory.py\<close> is not among the source files. Section 4.1:
  \<^verbatim>\<open>set_initial_state(obs)\<close> begins a new trajectory buffer and clears any partial
  in-progress sequence state.
\<close>

definition set_initial_state :: "obs \<Rightarrow> lazy_memory \<Rightarrow> lazy_memory" where
  "set_initial_state ob m = m\<lparr>initial_state := Some ob, buff := []\<rparr>"

text \<open>
  Modelled from the spec: the fixed-capacity store of \<^verbatim>\<open>MyLazyMemory\<close> (not among
  the source files). Section 4.1: a completed sequence is committed into the store,
  evicting the oldest stored sequence if the store is full.
\<close>

definition commit_sequence :: "lazy_memory \<Rightarrow> transition list \<Rightarrow> lazy_memory" where
  "commit_sequence m sq =
     m\<lparr>store := (if capacity m \<le> length (store m) then tl (store m) else store m) @ [sq],
       buff := []\<rparr>"

text \<open>
  Modelled from the spec: \<^verbatim>\<open>MyLazyMemory.append\<close> (not among the source files).
  Section 4.1: appends one transition to the in-progress sequence buffer; when the
  buffer reaches \<^verbatim>\<open>num_sequences\<close> length it is committed and the method returns
  true, otherwise it returns false.
\<close>

definition append_memory :: "lazy_memory \<Rightarrow> transition \<Rightarrow> bool \<times> lazy_memory" where
  "append_memory m tr =
     (let b = buff m @ [tr]
      in if length b = mem_num_sequences m then (True, commit_sequence m b)
         else (False, m\<lparr>buff := b\<rparr>))"

subsection \<open>Collaborators\<close>

text \<open>
  The environment, the skill policy, the summary writer, the networks and the optimiser
  are collaborators outside the trainer. Their joint state is a value of the type
  variable \<open>'x\<close>, and what they compute is a record of functions on it:
  \<^item> \<open>env_reset\<close> is \<^verbatim>\<open>env.reset()\<close>, \<open>env_step\<close> is \<^verbatim>\<open>env.step(action)\<close>
    (next state, reward, done), \<open>env_denormalize\<close> and \<open>state_normalization\<close> are
    the environment's \<^verbatim>\<open>denormalize\<close> and its flag;
  \<^item> \<open>set_skill\<close> and \<open>get_action\<close> are the skill policy's methods;
  \<^item> \<open>add_scalar\<close> and \<open>add_figure\<close> are the summary writer's methods, the figure
    being absent when the caller passes \<^verbatim>\<open>None\<close>; \<open>add_figure\<close> may raise;
  \<^item> \<open>save_file\<close> is \<^verbatim>\<open>torch.save\<close> of a figure, \<open>clf\<close> is \<^verbatim>\<open>plt.clf()\<close>;
  \<^item> \<open>forward\<close> is \<^verbatim>\<open>memory.sample_sequence(batch_size)\<close> on the stored
    sequences followed by the network calls of \<^verbatim>\<open>_calc_loss\<close>; \<open>update_params\<close>
    is the optimiser step on a loss; \<open>save_models\<close> is \<^verbatim>\<open>torch.save\<close> of the
    network.
\<close>

datatype figure = Figure "(nat \<times> string \<times> (real \<times> real) list) list"

text \<open>
  A two-dimensional tensor: its shape and its cells. What the networks and the tensor
  library compute for one sampled batch is a record: the KL divergence of posterior and
  prior (\<^verbatim>\<open>calc_kl_divergence\<close>), the MMD of prior and posterior samples
  (\<^verbatim>\<open>compute_mmd_tutorial\<close>), the log-likelihood, the reconstructed and the true
  actions (flattened), the per-row skill label
  \<^verbatim>\<open>skill_seq.float().mean(dim=1)\<close> cast to \<^verbatim>\<open>uint8\<close> and squeezed, and the
  posterior mode samples.
\<close>

record tensor2 =
  nrows :: nat
  ncols :: nat
  cell :: "nat \<Rightarrow> nat \<Rightarrow> real"

record batch_results =
  kld :: real
  mmd :: real
  ll :: real
  recon_samples :: "real list"
  actions_seq :: "real list"
  skill_labels :: "nat list"
  mode_post_samples :: tensor2

record 'x collaborators =
  env_reset :: "'x \<Rightarrow> obs \<times> 'x"
  env_step :: "action \<Rightarrow> 'x \<Rightarrow> (obs \<times> real \<times> bool) \<times> 'x"
  env_denormalize :: "obs \<Rightarrow> obs"
  state_normalization :: bool
  set_skill :: "nat \<Rightarrow> 'x \<Rightarrow> 'x"
  get_action :: "obs \<Rightarrow> 'x \<Rightarrow> action \<times> 'x"
  add_scalar :: "string \<Rightarrow> real \<Rightarrow> int \<Rightarrow> 'x \<Rightarrow> 'x"
  add_figure :: "string \<Rightarrow> figure option \<Rightarrow> int \<Rightarrow> 'x \<Rightarrow> error + 'x"
  save_file :: "figure option \<Rightarrow> 'x \<Rightarrow> 'x"
  clf :: "'x \<Rightarrow> 'x"
  forward :: "nat \<Rightarrow> transition list list \<Rightarrow> 'x \<Rightarrow> batch_results \<times> 'x"
  update_params :: "real \<Rightarrow> 'x \<Rightarrow> 'x"
  save_models :: "'x \<Rightarrow> 'x"

subsection \<open>The trainer\<close>

record info_loss_params =
  alpha :: real
  lamda :: real
  kld_diff_desired :: "real option"

datatype printed = EpisodeLine nat nat nat | StepsLine "int list"

text \<open>
  The fields of \<^verbatim>\<open>DisentTrainerNoSSM\<close> that the methods below read or write.
  \<open>world\<close> is the state of the collaborators, \<open>warnings\<close> collects the messages of
  \<^verbatim>\<open>warnings.warn\<close> and \<open>stdout\<close> the lines of \<^verbatim>\<open>print\<close>.
\<close>

record 'x trainer =
  mode_dim :: int
  num_sequences :: nat
  min_steps_sampling :: int
  batch_size :: nat
  train_steps :: int
  learn_steps :: int
  episodes :: int
  log_interval :: int
  loss_params :: info_loss_params
  num_skills :: nat
  steps :: "int list"
  memory :: lazy_memory
  world :: 'x
  warnings :: "string list"
  stdout :: "printed list"

text \<open>
  The part of \<^verbatim>\<open>__init__\<close> that sets these fields: the counters start at zero,
  \<^verbatim>\<open>self.steps = np.zeros(shape=self.num_skills)\<close>, and the memory is created empty
  with the configured capacity and sequence length.
\<close>

definition init_trainer ::
  "int \<Rightarrow> nat \<Rightarrow> int \<Rightarrow> nat \<Rightarrow> int \<Rightarrow> int \<Rightarrow> info_loss_params \<Rightarrow> nat \<Rightarrow> nat \<Rightarrow> 'x \<Rightarrow> 'x trainer"
where
  "init_trainer md nseq minsteps bs ts li ilp nskills memory_size w =
     \<lparr>mode_dim = md, num_sequences = nseq, min_steps_sampling = minsteps, batch_size = bs,
      train_steps = ts, learn_steps = 0, episodes = 0, log_interval = li,
      loss_params = ilp, num_skills = nskills, steps = replicate nskills 0,
      memory = \<lparr>capacity = memory_size, mem_num_sequences = nseq,
                initial_state = None, buff = [], store = []\<rparr>,
      world = w, warnings = [], stdout = []\<rparr>"

subsection \<open>Skill-balanced sampling\<close>

text \<open>\<^verbatim>\<open>np.max\<close> raises on an empty array; \<^verbatim>\<open>np.sum\<close> of an empty array is 0.\<close>

fun np_max :: "int list \<Rightarrow> error + int" where
  "np_max [] = Inl ValueError"
| "np_max (x # xs) = Inr (fold max xs x)"

definition np_sum :: "int list \<Rightarrow> int" where
  "np_sum xs = sum_list xs"

text \<open>
  The loop guard \<^verbatim>\<open>self.steps[skill] <= np.max(self.steps)\<close>. The index is
  evaluated first and raises when the skill is not an index of the array.
\<close>

definition rollout_guard :: "int list \<Rightarrow> nat \<Rightarrow> error + bool" where
  "rollout_guard st skill =
     (if length st \<le> skill then Inl IndexError
      else case np_max st of Inl e \<Rightarrow> Inl e | Inr m \<Rightarrow> Inr (st ! skill \<le> m))"

text \<open>
  One pass through the body of the loop of \<^verbatim>\<open>_sample_equal_skill_dist\<close>, up to the
  test of \<^verbatim>\<open>seq_pushed\<close>. The local variables are \<^verbatim>\<open>next_obs\<close>, \<^verbatim>\<open>done\<close> and
  \<^verbatim>\<open>episode_steps\<close>. The only caller passes \<^verbatim>\<open>self.steps\<close> as \<^verbatim>\<open>step_cnt\<close>, so
  both names denote the field \<open>steps\<close>. The observation given to the policy is
  \<^verbatim>\<open>next_obs\<close>, which the body changes only by a reset.
\<close>

definition rollout_body ::
  "'x collaborators \<Rightarrow> nat \<Rightarrow> obs \<Rightarrow> bool \<Rightarrow> nat \<Rightarrow> 'x trainer
     \<Rightarrow> bool \<times> obs \<times> bool \<times> nat \<times> 'x trainer"
where
  "rollout_body C skill next_obs dn episode_steps s =
     (let (next_obs1, w1) = (if dn then env_reset C (world s) else (next_obs, world s));
          (act, w2) = get_action C
             (if state_normalization C then env_denormalize C next_obs1 else next_obs1) w1;
          ((next_state, reward, dn1), w3) = env_step C act w2;
          episode_steps1 = episode_steps + 1;
          st1 = (steps s)[skill := steps s ! skill + 1];
          (seq_pushed, m1) = append_memory (memory s)
             \<lparr>tr_action = act, tr_skill = skill mod 256, tr_state = next_state,
              tr_done = dn1\<rparr>
      in (seq_pushed, next_obs1, dn1, episode_steps1,
          s\<lparr>steps := st1, memory := m1, world := w3\<rparr>))"

datatype loop_exit = GuardFalse | Break

text \<open>
  The \<^verbatim>\<open>while\<close> loop of \<^verbatim>\<open>_sample_equal_skill_dist\<close>. The result records how
  the loop was left: by a false guard or by the \<^verbatim>\<open>break\<close>.
\<close>

partial_function (option) rollout_loop ::
  "'x collaborators \<Rightarrow> nat \<Rightarrow> obs \<Rightarrow> bool \<Rightarrow> nat \<Rightarrow> 'x trainer
     \<Rightarrow> (error + loop_exit \<times> nat \<times> 'x trainer) option"
where
  "rollout_loop C skill next_obs dn episode_steps s =
     (case rollout_guard (steps s) skill of
        Inl e \<Rightarrow> Some (Inl e)
      | Inr g \<Rightarrow>
          if g then
            (case rollout_body C skill next_obs dn episode_steps s of
               (seq_pushed, next_obs1, dn1, episode_steps1, s1) \<Rightarrow>
                 if seq_pushed then Some (Inr (Break, episode_steps1, s1))
                 else rollout_loop C skill next_obs1 dn1 episode_steps1 s1)
          else Some (Inr (GuardFalse, episode_steps, s)))"

text \<open>\<^verbatim>\<open>_sample_equal_skill_dist\<close>: one rollout under one skill.\<close>

definition sample_equal_skill_dist ::
  "'x collaborators \<Rightarrow> nat \<Rightarrow> 'x trainer \<Rightarrow> (error + 'x trainer) option"
where
  "sample_equal_skill_dist C skill s =
     (let w1 = set_skill C skill (world s);
          (ob, w2) = env_reset C w1;
          m1 = set_initial_state ob (memory s)
      in case rollout_loop C skill ob False 0 (s\<lparr>memory := m1, world := w2\<rparr>) of
           None \<Rightarrow> None
         | Some (Inl e) \<Rightarrow> Some (Inl e)
         | Some (Inr (ex, episode_steps, s1)) \<Rightarrow>
             Some (Inr (s1\<lparr>stdout := stdout s1 @
                [EpisodeLine (nat (episodes s1)) episode_steps skill]\<rparr>)))"

text \<open>
  The skill update \<^verbatim>\<open>min(skill + 1, (skill + 1) % self.num_skills)\<close>. The skill
  starts at 0 and only this expression changes it, so it is a natural number.
\<close>

definition next_skill :: "nat \<Rightarrow> nat \<Rightarrow> error + nat" where
  "next_skill skill nskills =
     (if nskills = 0 then Inl ZeroDivisionError
      else Inr (min (skill + 1) ((skill + 1) mod nskills)))"

text \<open>One pass through the body of the loop of \<^verbatim>\<open>_sample_sequences\<close>.\<close>

definition sample_iter ::
  "'x collaborators \<Rightarrow> nat \<Rightarrow> 'x trainer \<Rightarrow> (error + nat \<times> 'x trainer) option"
where
  "sample_iter C skill s =
     (case sample_equal_skill_dist C skill s of
        None \<Rightarrow> None
      | Some (Inl e) \<Rightarrow> Some (Inl e)
      | Some (Inr s1) \<Rightarrow>
          (case next_skill skill (num_skills s1) of
             Inl e \<Rightarrow> Some (Inl e)
           | Inr skill1 \<Rightarrow> Some (Inr (skill1, s1\<lparr>episodes := episodes s1 + 1\<rparr>))))"

partial_function (option) sample_loop ::
  "'x collaborators \<Rightarrow> int \<Rightarrow> nat \<Rightarrow> 'x trainer \<Rightarrow> (error + 'x trainer) option"
where
  "sample_loop C min_steps skill s =
     (if np_sum (steps s) < min_steps then
        Option.bind (sample_iter C skill s)
          (\<lambda>r. case r of
                 Inl e \<Rightarrow> Some (Inl e)
               | Inr (skill1, s1) \<Rightarrow> sample_loop C min_steps skill1 s1)
      else Some (Inr s))"

text \<open>
  \<^verbatim>\<open>_sample_sequences\<close>, called by \<^verbatim>\<open>run_training\<close> with the trainer's own memory
  and counters. The skill histogram written at the end goes to the summary writer and
  is not modelled.
\<close>

definition sample_sequences ::
  "'x collaborators \<Rightarrow> int \<Rightarrow> 'x trainer \<Rightarrow> (error + 'x trainer) option"
where
  "sample_sequences C min_steps s =
     (case sample_loop C min_steps 0 s of
        None \<Rightarrow> None
      | Some (Inl e) \<Rightarrow> Some (Inl e)
      | Some (Inr s1) \<Rightarrow> Some (Inr (s1\<lparr>stdout := stdout s1 @ [StepsLine (steps s1)]\<rparr>)))"

text \<open>
  The pause points of the sampling phase started in state \<open>s0\<close>: the skill and the
  trainer state after each pass through the loop body of \<^verbatim>\<open>_sample_sequences\<close>,
  that is after each return of \<^verbatim>\<open>_sample_equal_skill_dist\<close> (the skill update and
  the episode count do not touch the counters).
\<close>

inductive pause_point :: "'x collaborators \<Rightarrow> int \<Rightarrow> 'x trainer \<Rightarrow> nat \<Rightarrow> 'x trainer \<Rightarrow> bool"
  for C :: "'x collaborators" and min_steps :: int and s0 :: "'x trainer"
where
  first: "np_sum (steps s0) < min_steps \<Longrightarrow> sample_iter C 0 s0 = Some (Inr (k, s))
            \<Longrightarrow> pause_point C min_steps s0 k s"
| later: "pause_point C min_steps s0 k s \<Longrightarrow> np_sum (steps s) < min_steps
            \<Longrightarrow> sample_iter C k s = Some (Inr (k1, s1))
            \<Longrightarrow> pause_point C min_steps s0 k1 s1"

declare rollout_loop.simps [code]
declare sample_loop.simps [code]

subsection \<open>Loss and logging\<close>

text \<open>
  \<^verbatim>\<open>F.mse_loss\<close> with its default mean reduction, on the flattened elements. A
  scalar tensor has one element.
\<close>

definition mse_loss :: "real list \<Rightarrow> real list \<Rightarrow> real" where
  "mse_loss xs ys = sum_list (map (\<lambda>(x, y). (x - y)\<^sup>2) (zip xs ys)) / real (length xs)"

text \<open>\<^verbatim>\<open>_is_interval\<close>: \<^verbatim>\<open>steps % log_interval == 0\<close>.\<close>

definition is_interval :: "int \<Rightarrow> int \<Rightarrow> error + bool" where
  "is_interval li st = (if li = 0 then Inl ZeroDivisionError else Inr (st mod li = 0))"

text \<open>\<^verbatim>\<open>_summary_log_mode\<close>: one scalar to the writer, keyed by the learn step.\<close>

definition summary_log_mode ::
  "'x collaborators \<Rightarrow> string \<Rightarrow> real \<Rightarrow> 'x trainer \<Rightarrow> 'x trainer"
where
  "summary_log_mode C data_name v t =
     t\<lparr>world := add_scalar C data_name v (learn_steps t) (world t)\<rparr>"

definition colors :: "string list" where
  "colors = [''b'', ''g'', ''r'', ''c'', ''m'', ''y'', ''k'',
             ''darkorange'', ''gray'', ''lightgreen'']"

text \<open>
  One \<^verbatim>\<open>plt.scatter\<close> call of \<^verbatim>\<open>_plot_mode_map\<close>: the rows whose label is the
  skill, in the colour \<^verbatim>\<open>colors[skill]\<close>. A boolean mask of the wrong length and a
  skill beyond the palette both raise \<^verbatim>\<open>IndexError\<close>.
\<close>

definition scatter_skill ::
  "nat list \<Rightarrow> tensor2 \<Rightarrow> nat \<Rightarrow> error + nat \<times> string \<times> (real \<times> real) list"
where
  "scatter_skill labels mps skill =
     (if length labels \<noteq> nrows mps then Inl IndexError
      else if length colors \<le> skill then Inl IndexError
      else Inr (skill, colors ! skill,
             map (\<lambda>i. (cell mps i 0, cell mps i 1))
               (filter (\<lambda>i. labels ! i = skill) [0..<nrows mps])))"

fun scatter_skills ::
  "nat list \<Rightarrow> tensor2 \<Rightarrow> nat list \<Rightarrow> error + (nat \<times> string \<times> (real \<times> real) list) list"
where
  "scatter_skills labels mps [] = Inr []"
| "scatter_skills labels mps (skill # rest) =
     (case scatter_skill labels mps skill of
        Inl e \<Rightarrow> Inl e
      | Inr g \<Rightarrow>
          (case scatter_skills labels mps rest of
             Inl e \<Rightarrow> Inl e
           | Inr gs \<Rightarrow> Inr (g # gs)))"

definition mode_dim_warning :: string where
  "mode_dim_warning = ''Warning: Mode-Dimension is not equal to 2 .No mode map is plotted''"

text \<open>
  \<^verbatim>\<open>_plot_mode_map\<close>. The checks come in the order of the source: the mode
  dimension (a warning and \<^verbatim>\<open>None\<close>), the palette (\<^verbatim>\<open>ValueError\<close>), the shape
  of the samples (\<^verbatim>\<open>assert\<close>); then one scatter per skill in
  \<^verbatim>\<open>range(skill_seq.max() + 1)\<close>, the maximum of an empty array raising
  \<^verbatim>\<open>ValueError\<close>.
\<close>

definition plot_mode_map ::
  "'x trainer \<Rightarrow> nat list \<Rightarrow> tensor2 \<Rightarrow> error + figure option \<times> 'x trainer"
where
  "plot_mode_map t labels mps =
     (if mode_dim t \<noteq> 2 then Inr (None, t\<lparr>warnings := warnings t @ [mode_dim_warning]\<rparr>)
      else if length colors < num_skills t then Inl ValueError
      else if (nrows mps, ncols mps) \<noteq> (batch_size t, 2) then Inl AssertionError
      else if labels = [] then Inl ValueError
      else case scatter_skills labels mps [0..<Max (set labels) + 1] of
             Inl e \<Rightarrow> Inl e
           | Inr gs \<Rightarrow> Inr (Some (Figure gs), t))"

text \<open>\<^verbatim>\<open>_save_fig\<close>: the loop over the locations, then \<^verbatim>\<open>plt.clf()\<close>.\<close>

fun save_fig_locations ::
  "'x collaborators \<Rightarrow> figure option \<Rightarrow> string \<Rightarrow> int \<Rightarrow> string list \<Rightarrow> 'x \<Rightarrow> error + 'x"
where
  "save_fig_locations C fig base_str st [] w = Inr w"
| "save_fig_locations C fig base_str st (loc # locs) w =
     (if loc = ''writer'' then
        (case add_figure C (base_str @ ''mode mapping'') fig st w of
           Inl e \<Rightarrow> Inl e
         | Inr w1 \<Rightarrow> save_fig_locations C fig base_str st locs w1)
      else if loc = ''file'' then
        save_fig_locations C fig base_str st locs (save_file C fig w)
      else Inl NotImplementedError)"

definition save_fig ::
  "'x collaborators \<Rightarrow> figure option \<Rightarrow> string list \<Rightarrow> string \<Rightarrow> 'x trainer
     \<Rightarrow> error + 'x trainer"
where
  "save_fig C fig locations base_str t =
     (case save_fig_locations C fig base_str (learn_steps t) locations (world t) of
        Inl e \<Rightarrow> Inl e
      | Inr w \<Rightarrow> Inr (t\<lparr>world := clf C w\<rparr>))"

text \<open>
  The logging block of \<^verbatim>\<open>_calc_loss\<close>, run when the learn step is a logging
  interval: seven scalars, then the mode map, and the figure handed to the writer.
\<close>

definition log_scalars ::
  "'x collaborators \<Rightarrow> 'x trainer \<Rightarrow> batch_results \<Rightarrow> real \<Rightarrow> real \<Rightarrow> real \<Rightarrow> 'x trainer"
where
  "log_scalars C t b mse kld_info mmd_info =
     (let t1 = summary_log_mode C ''Mode Model stats/log-liklyhood'' (ll b) t;
          t2 = summary_log_mode C ''Mode Model stats/mse'' mse t1;
          t3 = summary_log_mode C ''Mode Model stats/kld'' (kld b) t2;
          t4 = summary_log_mode C ''Mode Model stats/mmd'' (mmd b) t3;
          t5 = summary_log_mode C ''Mode Model info-vae/kld info-weighted'' kld_info t4;
          t6 = summary_log_mode C ''Mode Model info-vae/mmd info weighted'' mmd_info t5
      in summary_log_mode C ''Mode Model info-vae/loss on latent'' (mmd_info + kld_info) t6)"

definition log_stats ::
  "'x collaborators \<Rightarrow> 'x trainer \<Rightarrow> batch_results \<Rightarrow> real \<Rightarrow> real \<Rightarrow> real
     \<Rightarrow> error + 'x trainer"
where
  "log_stats C t b mse kld_info mmd_info =
     (case plot_mode_map (log_scalars C t b mse kld_info mmd_info)
             (skill_labels b) (mode_post_samples b) of
        Inl e \<Rightarrow> Inl e
      | Inr (mode_map_fig, t8) \<Rightarrow> save_fig C mode_map_fig [''writer''] ''Mode Model'' t8)"

text \<open>
  \<^verbatim>\<open>_calc_loss\<close>, from the quantities of the batch on: the Info-VAE loss, the
  optional control term on the KL divergence, the logging block, and the returned loss.
\<close>

definition calc_loss ::
  "'x collaborators \<Rightarrow> 'x trainer \<Rightarrow> batch_results \<Rightarrow> error + real \<times> 'x trainer"
where
  "calc_loss C t b =
     (let mse = mse_loss (recon_samples b) (actions_seq b);
          beta = 1;
          classic_loss = beta * kld b - ll b;
          kld_info = (1 - alpha (loss_params t)) * kld b;
          mmd_info = (alpha (loss_params t) + lamda (loss_params t) - 1) * mmd b;
          info_loss = mse + kld_info + mmd_info;
          info_loss1 =
            (case kld_diff_desired (loss_params t) of
               None \<Rightarrow> info_loss
             | Some kld_desired_scalar \<Rightarrow>
                 info_loss + 0.07 * mse_loss [kld_desired_scalar] [kld b])
      in case is_interval (log_interval t) (learn_steps t) of
           Inl e \<Rightarrow> Inl e
         | Inr False \<Rightarrow> Inr (info_loss1, t)
         | Inr True \<Rightarrow>
             (case log_stats C t b mse kld_info mmd_info of
                Inl e \<Rightarrow> Inl e
              | Inr t1 \<Rightarrow> Inr (info_loss1, t1)))"

text \<open>\<^verbatim>\<open>_learn_step\<close>, \<^verbatim>\<open>_train\<close> and \<^verbatim>\<open>run_training\<close>.\<close>

definition learn_step :: "'x collaborators \<Rightarrow> 'x trainer \<Rightarrow> error + 'x trainer" where
  "learn_step C t =
     (let (b, w1) = forward C (batch_size t) (store (memory t)) (world t)
      in case calc_loss C (t\<lparr>world := w1\<rparr>) b of
           Inl e \<Rightarrow> Inl e
         | Inr (loss, t1) \<Rightarrow>
             Inr (t1\<lparr>world := update_params C loss (world t1),
                     learn_steps := learn_steps t1 + 1\<rparr>))"

fun train_loop :: "'x collaborators \<Rightarrow> nat \<Rightarrow> 'x trainer \<Rightarrow> error + 'x trainer" where
  "train_loop C 0 t = Inr t"
| "train_loop C (Suc n) t =
     (case learn_step C t of Inl e \<Rightarrow> Inl e | Inr t1 \<Rightarrow> train_loop C n t1)"

definition train :: "'x collaborators \<Rightarrow> 'x trainer \<Rightarrow> error + 'x trainer" where
  "train C t = train_loop C (nat (train_steps t)) t"

definition run_training :: "'x collaborators \<Rightarrow> 'x trainer \<Rightarrow> (error + 'x trainer) option" where
  "run_training C t =
     (case sample_sequences C (min_steps_sampling t) t of
        None \<Rightarrow> None
      | Some (Inl e) \<Rightarrow> Some (Inl e)
      | Some (Inr t1) \<Rightarrow>
          (case train C t1 of
             Inl e \<Rightarrow> Some (Inl e)
           | Inr t2 \<Rightarrow> Some (Inr (t2\<lparr>world := save_models C (world t2)\<rparr>))))"

subsection \<open>The action sampler\<close>

text \<open>
  A tensor of the sampler: its data and the device it lives on; \<^verbatim>\<open>tensor.to(device)\<close>
  keeps the data.
\<close>

record tensor =
  t_data :: "real list"
  t_device :: string

definition to_device :: "tensor \<Rightarrow> string \<Rightarrow> tensor" where
  "to_device x dev = x\<lparr>t_device := dev\<rparr>"

text \<open>
  Modelled from the spec: the class \<^verbatim>\<open>ModeLatentNetwork\<close> of
  \<^verbatim>\<open>mode_disent_no_ssm/network/mode_model.py\<close> is not among the source files.
  Section 4.3: \<^verbatim>\<open>sample_mode_prior(batch_size)\<close> gives a sample of the prior, and
  \<^verbatim>\<open>action_decoder(state_rep_seq, mode_sample)\<close> gives an action distribution and a
  sampled action; both are functions of the current parameters and the input.
\<close>

record mode_latent_network =
  sample_mode_prior :: "nat \<Rightarrow> tensor"
  action_decoder :: "tensor \<Rightarrow> tensor \<Rightarrow> tensor \<times> tensor"

record action_sampler =
  mode_model :: mode_latent_network
  device :: string
  mode :: "tensor option"
  mode_next :: "tensor option"

text \<open>\<^verbatim>\<open>__init__\<close>; whether CUDA is available is a fact of the machine.\<close>

definition init_sampler :: "mode_latent_network \<Rightarrow> string \<Rightarrow> bool \<Rightarrow> action_sampler" where
  "init_sampler net dev cuda_available =
     \<lparr>mode_model = net, device = (if cuda_available then dev else ''cpu''),
      mode = None, mode_next = None\<rparr>"

definition set_mode :: "tensor \<Rightarrow> action_sampler \<Rightarrow> action_sampler" where
  "set_mode m s =
     s\<lparr>mode := Some (to_device m (device s)), mode_next := Some (to_device m (device s))\<rparr>"

definition reset :: "tensor option \<Rightarrow> action_sampler \<Rightarrow> action_sampler" where
  "reset m s =
     (case m of
        None \<Rightarrow> set_mode (sample_mode_prior (mode_model s) 1) s
      | Some md \<Rightarrow> set_mode md s)"

definition set_mode_next :: "tensor \<Rightarrow> action_sampler \<Rightarrow> action_sampler" where
  "set_mode_next m s = s\<lparr>mode_next := Some (to_device m (device s))\<rparr>"

definition update_mode_to_next :: "action_sampler \<Rightarrow> action_sampler" where
  "update_mode_to_next s = s\<lparr>mode := mode_next s\<rparr>"

text \<open>
  \<^verbatim>\<open>_get_action(self, mode, state_rep)\<close>, applied to a list of positional arguments as
  a Python call binds them: exactly two are required, any other number raises
  \<^verbatim>\<open>TypeError\<close>. The body decodes with \<^verbatim>\<open>state_rep_seq=state_rep\<close> and
  \<^verbatim>\<open>mode_sample=mode\<close> and returns the samples.
\<close>

definition sampler_get_action :: "action_sampler \<Rightarrow> tensor list \<Rightarrow> error + tensor" where
  "sampler_get_action s args =
     (case args of
        [md, state_rep] \<Rightarrow> Inr (snd (action_decoder (mode_model s) state_rep md))
      | _ \<Rightarrow> Inl TypeError)"

text \<open>\<^verbatim>\<open>__call__(self, state_rep)\<close>: \<^verbatim>\<open>return self._get_action(state_rep)\<close>.\<close>

definition sampler_call :: "action_sampler \<Rightarrow> tensor \<Rightarrow> error + tensor" where
  "sampler_call s state_rep = sampler_get_action s [state_rep]"

subsection \<open>Specification-side definitions\<close>

text \<open>
  The counters are balanced before the rollout of skill \<open>k\<close> when the skills below
  \<open>k\<close> are one rollout segment of \<open>n\<close> steps ahead of the others.
\<close>

definition balanced :: "nat \<Rightarrow> nat \<Rightarrow> int list \<Rightarrow> bool" where
  "balanced n k st \<longleftrightarrow>
     k < length st \<and> (\<forall>i<length st. st ! i = (if i < k then last st + int n else last st))"


text \<open>The invariant of the sampling loop, for a sequence length \<open>n\<close>.\<close>

definition sampling_inv :: "nat \<Rightarrow> nat \<Rightarrow> 'x trainer \<Rightarrow> bool" where
  "sampling_inv n k s \<longleftrightarrow>
     length (steps s) = num_skills s \<and> mem_num_sequences (memory s) = n
     \<and> balanced n k (steps s)"


text \<open>
  The composite loss as the specification writes it: the mean squared error, the
  weighted KL divergence and MMD, and the control term when a set-point is configured.
\<close>

definition info_loss_spec :: "info_loss_params \<Rightarrow> real \<Rightarrow> real \<Rightarrow> real \<Rightarrow> real" where
  "info_loss_spec p mse k m =
     mse + (1 - alpha p) * k + (alpha p + lamda p - 1) * m
       + (case kld_diff_desired p of None \<Rightarrow> 0 | Some d \<Rightarrow> 0.07 * (d - k)\<^sup>2)"

subsection \<open>Concrete collaborators and states for the worked examples\<close>

text \<open>
  The state of the collaborators is a counter. The environment ends an episode every
  third step; the policy echoes its observation; the writer renders the figure it is
  given, so that a missing figure raises \<^verbatim>\<open>AttributeError\<close>.
\<close>

definition ex_mps :: tensor2 where
  "ex_mps = \<lparr>nrows = 1, ncols = 2, cell = (\<lambda>i j. real j)\<rparr>"

definition ex_batch :: batch_results where
  "ex_batch =
     \<lparr>kld = 1, mmd = 3, ll = 0, recon_samples = [1], actions_seq = [0],
      skill_labels = [0], mode_post_samples = ex_mps\<rparr>"

definition ex_collab :: "nat collaborators" where
  "ex_collab =
     \<lparr>env_reset = (\<lambda>w. ([0], w)),
      env_step = (\<lambda>a w. (([real w], 0, w mod 3 = 2), w + 1)),
      env_denormalize = (\<lambda>ob. ob),
      state_normalization = False,
      set_skill = (\<lambda>k w. w),
      get_action = (\<lambda>ob w. (ob, w)),
      add_scalar = (\<lambda>tag v st w. w + 1),
      add_figure = (\<lambda>tag fig st w.
         case fig of None \<Rightarrow> Inl AttributeError | Some f \<Rightarrow> Inr (w + 1)),
      save_file = (\<lambda>fig w. w),
      clf = (\<lambda>w. w),
      forward = (\<lambda>bs sqs w. (ex_batch, w)),
      update_params = (\<lambda>loss w. w + 1),
      save_models = (\<lambda>w. w)\<rparr>"

definition ex_params :: info_loss_params where
  "ex_params = \<lparr>alpha = 0, lamda = 2, kld_diff_desired = Some 2\<rparr>"

definition ex_trainer :: "nat trainer" where
  "ex_trainer = init_trainer 2 2 3 1 1 1 ex_params 2 10 0"

definition ex_net :: mode_latent_network where
  "ex_net =
     \<lparr>sample_mode_prior = (\<lambda>n. \<lparr>t_data = [0, 0], t_device = ''cpu''\<rparr>),
      action_decoder = (\<lambda>state_rep md. (state_rep, md))\<rparr>"

section \<open>Properties\<close>

subsection \<open>The rollout loop\<close>

lemma fold_max_ge: "y \<in> set (x # xs) \<Longrightarrow> (y::int) \<le> fold max xs x"
  by (simp only: Max.set_eq_fold [symmetric]) (rule Max_ge, simp_all)

lemma rollout_guard_True: "skill < length st \<Longrightarrow> rollout_guard st skill = Inr True"
proof -
  assume a: "skill < length st"
  then obtain x xs where st: "st = x # xs" by (cases st) auto
  have "st ! skill \<in> set (x # xs)" using a st nth_mem by metis
  then have "st ! skill \<le> fold max xs x" by (rule fold_max_ge)
  then show ?thesis using a st by (simp add: rollout_guard_def)
qed

lemma rollout_body_effect:
  assumes "rollout_body C skill ob dn e s = (p, ob1, dn1, e1, s1)"
  shows "e1 = e + 1 \<and> steps s1 = (steps s)[skill := steps s ! skill + 1]
     \<and> (\<exists>tr. append_memory (memory s) tr = (p, memory s1))
     \<and> num_skills s1 = num_skills s \<and> episodes s1 = episodes s \<and> stdout s1 = stdout s"
  using assms by (auto simp: rollout_body_def Let_def split: prod.splits if_splits)

lemma append_memory_effect:
  assumes "append_memory m tr = (p, m1)"
  shows "mem_num_sequences m1 = mem_num_sequences m \<and> capacity m1 = capacity m
     \<and> (p \<longleftrightarrow> length (buff m) + 1 = mem_num_sequences m)
     \<and> (\<not> p \<longrightarrow> buff m1 = buff m @ [tr] \<and> store m1 = store m)
     \<and> (p \<longrightarrow> buff m1 = [] \<and> store m1 =
           (if capacity m \<le> length (store m) then tl (store m) else store m) @ [buff m @ [tr]])"
  using assms by (auto simp: append_memory_def commit_sequence_def Let_def split: if_splits)


lemma rollout_loop_result:
  assumes "skill < length (steps s)"
    and "length (buff (memory s)) + r = mem_num_sequences (memory s)" and "0 < r"
  shows "\<exists>s1 sq. rollout_loop C skill ob dn e s = Some (Inr (Break, e + r, s1))
     \<and> steps s1 = (steps s)[skill := steps s ! skill + int r]
     \<and> num_skills s1 = num_skills s \<and> episodes s1 = episodes s \<and> stdout s1 = stdout s
     \<and> mem_num_sequences (memory s1) = mem_num_sequences (memory s)
     \<and> capacity (memory s1) = capacity (memory s)
     \<and> buff (memory s1) = []
     \<and> length sq = mem_num_sequences (memory s)
     \<and> store (memory s1) =
         (if capacity (memory s) \<le> length (store (memory s)) then tl (store (memory s))
          else store (memory s)) @ [sq]"
  using assms
proof (induction r arbitrary: s ob dn e)
  case 0
  then show ?case by simp
next
  case (Suc r)
  obtain p ob1 dn1 e1 s1 where body: "rollout_body C skill ob dn e s = (p, ob1, dn1, e1, s1)"
    by (metis prod_cases5)
  from rollout_body_effect [OF body] obtain tr where
    e1: "e1 = e + 1" and st1: "steps s1 = (steps s)[skill := steps s ! skill + 1]"
    and app: "append_memory (memory s) tr = (p, memory s1)"
    and rest: "num_skills s1 = num_skills s" "episodes s1 = episodes s" "stdout s1 = stdout s"
    by blast
  note am = append_memory_effect [OF app]
  have guard: "rollout_guard (steps s) skill = Inr True"
    using Suc.prems(1) by (rule rollout_guard_True)
  show ?case
  proof (cases r)
    case 0
    then have p: p using am Suc.prems(2) by simp
    have "rollout_loop C skill ob dn e s = Some (Inr (Break, e1, s1))"
      by (subst rollout_loop.simps) (simp add: guard body p)
    then show ?thesis
      using 0 e1 st1 rest am p Suc.prems(2) by auto
  next
    case (Suc r')
    then have np: "\<not> p" using am Suc.prems(2) by simp
    have unfold: "rollout_loop C skill ob dn e s = rollout_loop C skill ob1 dn1 e1 s1"
      by (subst rollout_loop.simps) (simp add: guard body np)
    have len: "skill < length (steps s1)" using st1 Suc.prems(1) by simp
    have bl: "length (buff (memory s1)) + r = mem_num_sequences (memory s1)"
      using am np Suc.prems(2) by simp
    have rpos: "0 < r" using Suc by simp
    from Suc.IH [OF len bl rpos, of ob1 dn1 e1] obtain s2 sq where
      IH: "rollout_loop C skill ob1 dn1 e1 s1 = Some (Inr (Break, e1 + r, s2))"
        "steps s2 = (steps s1)[skill := steps s1 ! skill + int r]"
        "num_skills s2 = num_skills s1" "episodes s2 = episodes s1" "stdout s2 = stdout s1"
        "mem_num_sequences (memory s2) = mem_num_sequences (memory s1)"
        "capacity (memory s2) = capacity (memory s1)"
        "buff (memory s2) = []"
        "length sq = mem_num_sequences (memory s1)"
        "store (memory s2) =
         (if capacity (memory s1) \<le> length (store (memory s1)) then tl (store (memory s1))
          else store (memory s1)) @ [sq]"
      by blast
    have "steps s2 = (steps s)[skill := steps s ! skill + int (Suc r)]"
      using IH(2) st1 Suc.prems(1) by (simp add: add.assoc)
    then show ?thesis
      using unfold IH e1 rest am np by auto
  qed
qed


lemma sample_equal_skill_dist_result:
  assumes "skill < length (steps s)" and "0 < mem_num_sequences (memory s)"
  shows "\<exists>s1 sq. sample_equal_skill_dist C skill s = Some (Inr s1)
     \<and> steps s1 = (steps s)[skill := steps s ! skill + int (mem_num_sequences (memory s))]
     \<and> num_skills s1 = num_skills s \<and> episodes s1 = episodes s
     \<and> mem_num_sequences (memory s1) = mem_num_sequences (memory s)
     \<and> capacity (memory s1) = capacity (memory s)
     \<and> length sq = mem_num_sequences (memory s)
     \<and> store (memory s1) =
         (if capacity (memory s) \<le> length (store (memory s)) then tl (store (memory s))
          else store (memory s)) @ [sq]
     \<and> stdout s1 = stdout s @
          [EpisodeLine (nat (episodes s)) (mem_num_sequences (memory s)) skill]"
proof -
  obtain ob w2 where r: "env_reset C (set_skill C skill (world s)) = (ob, w2)"
    by (cases "env_reset C (set_skill C skill (world s))")
  define s' where "s' = s\<lparr>memory := set_initial_state ob (memory s), world := w2\<rparr>"
  have a: "skill < length (steps s')" using assms(1) by (simp add: s'_def)
  have b: "length (buff (memory s')) + mem_num_sequences (memory s)
             = mem_num_sequences (memory s')"
    by (simp add: s'_def set_initial_state_def)
  from rollout_loop_result [OF a b assms(2), of C ob False 0] obtain s1 sq where
    L: "rollout_loop C skill ob False 0 s' =
          Some (Inr (Break, 0 + mem_num_sequences (memory s), s1))"
      "steps s1 = (steps s')[skill := steps s' ! skill + int (mem_num_sequences (memory s))]"
      "num_skills s1 = num_skills s'" "episodes s1 = episodes s'" "stdout s1 = stdout s'"
      "mem_num_sequences (memory s1) = mem_num_sequences (memory s')"
      "capacity (memory s1) = capacity (memory s')"
      "length sq = mem_num_sequences (memory s')"
      "store (memory s1) =
         (if capacity (memory s') \<le> length (store (memory s')) then tl (store (memory s'))
          else store (memory s')) @ [sq]"
    by blast
  have "sample_equal_skill_dist C skill s =
      Some (Inr (s1\<lparr>stdout := stdout s1 @
         [EpisodeLine (nat (episodes s1)) (mem_num_sequences (memory s)) skill]\<rparr>))"
    using r L(1) by (simp add: sample_equal_skill_dist_def s'_def)
  then show ?thesis
    using L(2-) by (simp add: s'_def set_initial_state_def)
qed

lemma next_skill_mod: "skill < nskills \<Longrightarrow> next_skill skill nskills = Inr ((skill + 1) mod nskills)"
proof -
  assume a: "skill < nskills"
  have "(skill + 1) mod nskills \<le> skill + 1" by (rule mod_less_eq_dividend)
  then have "min (skill + 1) ((skill + 1) mod nskills) = (skill + 1) mod nskills"
    by (rule min_absorb2)
  then show ?thesis using a by (simp add: next_skill_def)
qed

lemma sample_iter_result:
  assumes "skill < num_skills s" and "length (steps s) = num_skills s"
    and "0 < mem_num_sequences (memory s)"
  shows "\<exists>s1. sample_iter C skill s = Some (Inr ((skill + 1) mod num_skills s, s1))
     \<and> steps s1 = (steps s)[skill := steps s ! skill + int (mem_num_sequences (memory s))]
     \<and> num_skills s1 = num_skills s \<and> episodes s1 = episodes s + 1
     \<and> mem_num_sequences (memory s1) = mem_num_sequences (memory s)"
proof -
  have a: "skill < length (steps s)" using assms by simp
  from sample_equal_skill_dist_result [OF a assms(3), of C] obtain s1 where
    R: "sample_equal_skill_dist C skill s = Some (Inr s1)"
      "steps s1 = (steps s)[skill := steps s ! skill + int (mem_num_sequences (memory s))]"
      "num_skills s1 = num_skills s" "episodes s1 = episodes s"
      "mem_num_sequences (memory s1) = mem_num_sequences (memory s)"
    by blast
  have "sample_iter C skill s =
     Some (Inr ((skill + 1) mod num_skills s, s1\<lparr>episodes := episodes s1 + 1\<rparr>))"
    using R(1,3) assms(1) by (simp add: sample_iter_def next_skill_mod)
  then show ?thesis using R(2-) by simp
qed

lemma sum_list_bump:
  "i < length xs \<Longrightarrow> sum_list (xs[i := xs ! i + d]) = sum_list xs + (d::int)"
proof (induction xs arbitrary: i)
  case Nil
  then show ?case by simp
next
  case (Cons x xs)
  then show ?case by (cases i) simp_all
qed

lemma sample_loop_terminates:
  assumes "skill < num_skills s" and "length (steps s) = num_skills s"
    and "0 < mem_num_sequences (memory s)"
  shows "\<exists>s1. sample_loop C min_steps skill s = Some (Inr s1)
            \<and> min_steps \<le> np_sum (steps s1)"
  using assms
proof (induction "nat (min_steps - np_sum (steps s))" arbitrary: s skill rule: less_induct)
  case less
  show ?case
  proof (cases "np_sum (steps s) < min_steps")
    case False
    then have "sample_loop C min_steps skill s = Some (Inr s)"
      by (subst sample_loop.simps) simp
    then show ?thesis using False by simp
  next
    case True
    from sample_iter_result [OF less.prems, of C] obtain s1 where
      R: "sample_iter C skill s = Some (Inr ((skill + 1) mod num_skills s, s1))"
        "steps s1 = (steps s)[skill := steps s ! skill + int (mem_num_sequences (memory s))]"
        "num_skills s1 = num_skills s"
        "mem_num_sequences (memory s1) = mem_num_sequences (memory s)"
      by blast
    have sum1: "np_sum (steps s1) = np_sum (steps s) + int (mem_num_sequences (memory s))"
      using R(2) less.prems(1,2) by (simp add: np_sum_def sum_list_bump)
    have dec: "nat (min_steps - np_sum (steps s1)) < nat (min_steps - np_sum (steps s))"
      using sum1 True less.prems(3) by simp
    have p1: "(skill + 1) mod num_skills s < num_skills s1"
      using less.prems(1) R(3) by simp
    have p2: "length (steps s1) = num_skills s1" using R(2,3) less.prems(2) by simp
    have p3: "0 < mem_num_sequences (memory s1)" using R(4) less.prems(3) by simp
    from less.hyps [OF dec p1 p2 p3] obtain s2 where
      IH: "sample_loop C min_steps ((skill + 1) mod num_skills s) s1 = Some (Inr s2)"
        "min_steps \<le> np_sum (steps s2)"
      by blast
    have "sample_loop C min_steps skill s = Some (Inr s2)"
      by (subst sample_loop.simps) (use True R(1) IH(1) in simp)
    then show ?thesis using IH(2) by simp
  qed
qed


lemma balanced_init: "0 < K \<Longrightarrow> balanced n 0 (replicate K 0)"
  by (simp add: balanced_def last_replicate)

lemma balanced_step:
  assumes "balanced n k st"
  shows "balanced n ((k + 1) mod length st) (st[k := st ! k + int n])"
proof -
  from assms have k: "k < length st"
    and vals: "\<And>i. i < length st \<Longrightarrow> st ! i = (if i < k then last st + int n else last st)"
    by (simp_all add: balanced_def)
  have ne: "st \<noteq> []" using k by auto
  let ?st = "st[k := st ! k + int n]"
  have stk: "st ! k = last st" using vals [OF k] by simp
  show ?thesis
  proof (cases "k + 1 < length st")
    case True
    then have "k \<noteq> length st - 1" by simp
    then have "last ?st = last st" using ne by (simp add: last_list_update)
    then show ?thesis
      using True k vals stk by (auto simp: balanced_def nth_list_update less_Suc_eq)
  next
    case False
    then have kl: "k = length st - 1" using k by simp
    then have "last ?st = last st + int n" using ne stk by (simp add: last_list_update)
    moreover have "(k + 1) mod length st = 0" using kl ne by simp
    ultimately show ?thesis
      using k vals stk kl by (auto simp: balanced_def nth_list_update)
  qed
qed

lemma balanced_spread:
  assumes "balanced n k st"
  shows "Max (set st) - Min (set st) \<le> int n"
proof -
  from assms have k: "k < length st"
    and vals: "\<And>i. i < length st \<Longrightarrow> st ! i = (if i < k then last st + int n else last st)"
    by (simp_all add: balanced_def)
  have ne: "set st \<noteq> {}" using k by auto
  have bounds: "\<forall>x\<in>set st. last st \<le> x \<and> x \<le> last st + int n"
    using vals by (auto simp: in_set_conv_nth)
  have "Max (set st) \<le> last st + int n" using ne bounds by simp
  moreover have "last st \<le> Min (set st)" using ne bounds by simp
  ultimately show ?thesis by simp
qed

lemma sampling_inv_step:
  assumes "sampling_inv n k s" and "0 < n" and "sample_iter C k s = Some (Inr (k1, s1))"
  shows "sampling_inv n k1 s1"
proof -
  from assms(1) have len: "length (steps s) = num_skills s"
    and n: "mem_num_sequences (memory s) = n" and bal: "balanced n k (steps s)"
    by (simp_all add: sampling_inv_def)
  have k: "k < num_skills s" using bal len by (simp add: balanced_def)
  have npos: "0 < mem_num_sequences (memory s)" using n assms(2) by simp
  from sample_iter_result [OF k len npos, of C] assms(3) have
    R: "k1 = (k + 1) mod num_skills s"
      "steps s1 = (steps s)[k := steps s ! k + int (mem_num_sequences (memory s))]"
      "num_skills s1 = num_skills s"
      "mem_num_sequences (memory s1) = mem_num_sequences (memory s)"
    by auto
  show ?thesis
    using balanced_step [OF bal] R len n by (simp add: sampling_inv_def)
qed

lemma sample_iter_no_skill:
  assumes "length (steps s) \<le> k"
  shows "sample_iter C k s = Some (Inl IndexError)"
proof -
  have "rollout_loop C k ob dn e (s\<lparr>memory := m, world := w\<rparr>) = Some (Inl IndexError)"
    for ob dn e m w
    by (subst rollout_loop.simps) (use assms in \<open>simp add: rollout_guard_def\<close>)
  then show ?thesis
    by (simp add: sample_iter_def sample_equal_skill_dist_def Let_def split: prod.splits)
qed

lemma pause_point_inv:
  assumes "pause_point C min_steps s0 k s"
    and "steps s0 = replicate (num_skills s0) 0" and "mem_num_sequences (memory s0) = n"
    and "0 < n"
  shows "sampling_inv n k s"
  using assms
proof (induction rule: pause_point.induct)
  case (first k s)
  have "0 < num_skills s0"
  proof (rule ccontr)
    assume "\<not> 0 < num_skills s0"
    then have "length (steps s0) \<le> 0" using first.prems(1) by simp
    then have "sample_iter C 0 s0 = Some (Inl IndexError)" by (rule sample_iter_no_skill)
    then show False using first.hyps(2) by simp
  qed
  then have "sampling_inv n 0 s0"
    using first.prems by (simp add: sampling_inv_def balanced_init)
  then show ?case using first.prems(3) first.hyps(2) by (rule sampling_inv_step)
next
  case (later k s k1 s1)
  then have "sampling_inv n k s" by simp
  then show ?case using later.prems(3) later.hyps(3) by (rule sampling_inv_step)
qed

lemma rollout_loop_exit_aux:
  assumes "rollout_loop C skill ob dn e s = Some y"
  shows "case y of Inl err \<Rightarrow> True | Inr (ex, e1, s1) \<Rightarrow> ex = Break"
proof (rule rollout_loop.raw_induct
    [where P = "\<lambda>C skill ob dn e s y. case y of Inl err \<Rightarrow> True | Inr (ex, e1, s1) \<Rightarrow> ex = Break",
     OF _ assms])
  fix loop :: "'a collaborators \<Rightarrow> nat \<Rightarrow> obs \<Rightarrow> bool \<Rightarrow> nat \<Rightarrow> 'a trainer
     \<Rightarrow> (error + loop_exit \<times> nat \<times> 'a trainer) option"
  fix C skill ob dn e s y
  assume IH: "\<And>C skill ob dn e s y. loop C skill ob dn e s = Some y \<Longrightarrow>
     (case y of Inl err \<Rightarrow> True | Inr (ex, e1, s1) \<Rightarrow> ex = Break)"
  assume unf: "(case rollout_guard (steps s) skill of
        Inl e \<Rightarrow> Some (Inl e)
      | Inr g \<Rightarrow>
          if g then
            (case rollout_body C skill ob dn e s of
               (seq_pushed, next_obs1, dn1, episode_steps1, s1) \<Rightarrow>
                 if seq_pushed then Some (Inr (Break, episode_steps1, s1))
                 else loop C skill next_obs1 dn1 episode_steps1 s1)
          else Some (Inr (GuardFalse, e, s))) = Some y"
  show "case y of Inl err \<Rightarrow> True | Inr (ex, e1, s1) \<Rightarrow> ex = Break"
  proof (cases "rollout_guard (steps s) skill")
    case (Inl err)
    then show ?thesis using unf by auto
  next
    case (Inr g)
    have len: "skill < length (steps s)"
      using Inr by (auto simp: rollout_guard_def split: if_splits)
    then have g: "g" using Inr rollout_guard_True by fastforce
    obtain p ob1 dn1 ep1 s2 where body: "rollout_body C skill ob dn e s = (p, ob1, dn1, ep1, s2)"
      by (metis prod_cases5)
    show ?thesis
    proof (cases p)
      case True
      then show ?thesis using unf Inr g body by auto
    next
      case False
      then have "loop C skill ob1 dn1 ep1 s2 = Some y"
        using unf Inr g body by simp
      then show ?thesis by (rule IH)
    qed
  qed
qed

lemma rollout_loop_exit:
  "rollout_loop C skill ob dn e s = Some (Inr (ex, e1, s1)) \<Longrightarrow> ex = Break"
  by (drule rollout_loop_exit_aux) simp


subsection \<open>The sampling phase\<close>

text \<open>
  C3. At every pause point of the sampling phase started by \<^verbatim>\<open>run_training\<close> on a
  fresh trainer, the largest and the smallest per-skill step counter differ by at most
  one rollout segment, that is by at most \<^verbatim>\<open>num_sequences\<close> steps.
\<close>

theorem pause_point_spread:
  assumes "pause_point C min_steps (init_trainer md nseq ms bs ts li ilp K cap w) k s"
    and "0 < nseq"
  shows "Max (set (steps s)) - Min (set (steps s)) \<le> int nseq"
proof -
  have "sampling_inv nseq k s"
    using assms(1) _ _ assms(2) by (rule pause_point_inv) (simp_all add: init_trainer_def)
  then have "balanced nseq k (steps s)" by (simp add: sampling_inv_def)
  then show ?thesis by (rule balanced_spread)
qed

theorem pause_point_spread_witness:
  "\<exists>k s. pause_point ex_collab 3 ex_trainer k s \<and> steps s = [2, 0]
         \<and> Max (set (steps s)) - Min (set (steps s)) \<le> int 2"
proof -
  have "0 < num_skills ex_trainer" "length (steps ex_trainer) = num_skills ex_trainer"
    "0 < mem_num_sequences (memory ex_trainer)"
    by (simp_all add: ex_trainer_def init_trainer_def)
  from sample_iter_result [OF this, of ex_collab] obtain s1 where
    it: "sample_iter ex_collab 0 ex_trainer = Some (Inr ((0 + 1) mod num_skills ex_trainer, s1))"
    and st: "steps s1 = (steps ex_trainer)
       [0 := steps ex_trainer ! 0 + int (mem_num_sequences (memory ex_trainer))]"
    by blast
  have "np_sum (steps ex_trainer) < 3"
    by (simp add: ex_trainer_def init_trainer_def np_sum_def numeral_2_eq_2)
  then have pp: "pause_point ex_collab 3 ex_trainer ((0 + 1) mod num_skills ex_trainer) s1"
    using it by (rule pause_point.first)
  have two: "(0::nat) < 2" by simp
  have "Max (set (steps s1)) - Min (set (steps s1)) \<le> int 2"
    using pp two unfolding ex_trainer_def by (rule pause_point_spread)
  moreover have "steps s1 = [2, 0]"
    using st by (simp add: ex_trainer_def init_trainer_def numeral_2_eq_2)
  ultimately show ?thesis using pp by blast
qed

text \<open>
  C4. With a memory that reports a completed sequence after \<^verbatim>\<open>num_sequences\<close>
  consecutive appends (at least one) and a trainer with at least one skill,
  \<^verbatim>\<open>_sample_sequences\<close> returns, and the counters then sum to at least
  \<^verbatim>\<open>min_steps\<close>.
\<close>

theorem sample_sequences_terminates:
  assumes "0 < mem_num_sequences (memory s)" and "0 < num_skills s"
    and "length (steps s) = num_skills s"
  shows "\<exists>s1. sample_sequences C min_steps s = Some (Inr s1)
            \<and> min_steps \<le> np_sum (steps s1)"
proof -
  from sample_loop_terminates [OF assms(2,3,1), of C min_steps] obtain s1 where
    "sample_loop C min_steps 0 s = Some (Inr s1)" and "min_steps \<le> np_sum (steps s1)"
    by blast
  then show ?thesis by (simp add: sample_sequences_def)
qed

theorem sample_sequences_terminates_witness:
  "\<exists>s1. sample_sequences ex_collab 3 ex_trainer = Some (Inr s1) \<and> 3 \<le> np_sum (steps s1)"
  by (rule sample_sequences_terminates) (simp_all add: ex_trainer_def init_trainer_def)






text \<open>
  C10. In a rollout under a skill that is an index of the counters, the loop guard is
  true; whenever the loop returns, it was left by the \<^verbatim>\<open>break\<close>; and with a memory
  of sequence length at least one the call returns after committing exactly one
  sequence of that length, the skill's counter having advanced by that length.
\<close>

theorem rollout_leaves_by_break:
  assumes "skill < length (steps s)"
  shows "rollout_guard (steps s) skill = Inr True
    \<and> (\<forall>ex e1 s1. rollout_loop C skill ob dn e s = Some (Inr (ex, e1, s1)) \<longrightarrow> ex = Break)
    \<and> (0 < mem_num_sequences (memory s) \<longrightarrow>
         (\<exists>s1 sq. sample_equal_skill_dist C skill s = Some (Inr s1)
            \<and> length sq = mem_num_sequences (memory s)
            \<and> store (memory s1) =
                (if capacity (memory s) \<le> length (store (memory s))
                 then tl (store (memory s)) else store (memory s)) @ [sq]
            \<and> steps s1 =
                (steps s)[skill := steps s ! skill + int (mem_num_sequences (memory s))]))"
proof (intro conjI allI impI)
  show "rollout_guard (steps s) skill = Inr True"
    using assms by (rule rollout_guard_True)
next
  fix ex e1 s1
  assume "rollout_loop C skill ob dn e s = Some (Inr (ex, e1, s1))"
  then show "ex = Break" by (rule rollout_loop_exit)
next
  assume "0 < mem_num_sequences (memory s)"
  from sample_equal_skill_dist_result [OF assms this, of C]
  show "\<exists>s1 sq. sample_equal_skill_dist C skill s = Some (Inr s1)
            \<and> length sq = mem_num_sequences (memory s)
            \<and> store (memory s1) =
                (if capacity (memory s) \<le> length (store (memory s))
                 then tl (store (memory s)) else store (memory s)) @ [sq]
            \<and> steps s1 =
                (steps s)[skill := steps s ! skill + int (mem_num_sequences (memory s))]"
    by blast
qed

theorem rollout_leaves_by_break_witness:
  "rollout_guard (steps ex_trainer) 0 = Inr True
    \<and> (\<exists>s1 sq. sample_equal_skill_dist ex_collab 0 ex_trainer = Some (Inr s1)
          \<and> length sq = 2 \<and> store (memory s1) = [sq] \<and> steps s1 = [2, 0])"
proof -
  have len: "0 < length (steps ex_trainer)" by (simp add: ex_trainer_def init_trainer_def)
  have vals: "mem_num_sequences (memory ex_trainer) = 2" "store (memory ex_trainer) = []"
    "capacity (memory ex_trainer) = 10" "steps ex_trainer = [0, 0]"
    by (simp_all add: ex_trainer_def init_trainer_def numeral_2_eq_2)
  show ?thesis
    using rollout_leaves_by_break [OF len, of ex_collab "[]" False 0] by (simp add: vals)
qed


subsection \<open>The composite loss\<close>

lemma mse_loss_scalar: "mse_loss [d] [k] = (d - k)\<^sup>2"
  by (simp add: mse_loss_def)

lemma calc_loss_value:
  "calc_loss C t b = Inr (v, t1) \<Longrightarrow>
     v = info_loss_spec (loss_params t) (mse_loss (recon_samples b) (actions_seq b))
           (kld b) (mmd b)"
  by (auto simp: calc_loss_def Let_def info_loss_spec_def mse_loss_scalar
      split: sum.splits bool.splits option.splits)

lemma calc_loss_no_logging:
  "log_interval t \<noteq> 0 \<Longrightarrow> learn_steps t mod log_interval t \<noteq> 0 \<Longrightarrow>
     calc_loss C t b =
       Inr (info_loss_spec (loss_params t) (mse_loss (recon_samples b) (actions_seq b))
              (kld b) (mmd b), t)"
  by (auto simp: calc_loss_def Let_def info_loss_spec_def mse_loss_scalar is_interval_def
      split: option.splits)

text \<open>
  C1. Whenever \<^verbatim>\<open>_calc_loss\<close> returns a loss, it is the mean squared error plus
  \<open>(1 - alpha)\<close> times the KL divergence plus \<open>(alpha + lamda - 1)\<close> times the MMD,
  plus \<open>0.07\<close> times the squared distance of the KL divergence from the desired value
  when one is configured, and nothing else; and on a learn step that is not a logging
  interval the loss is returned with the trainer unchanged.
\<close>

theorem calc_loss_composite:
  "(\<forall>v t1. calc_loss C t b = Inr (v, t1) \<longrightarrow>
      v = info_loss_spec (loss_params t) (mse_loss (recon_samples b) (actions_seq b))
            (kld b) (mmd b))
   \<and> (log_interval t \<noteq> 0 \<and> learn_steps t mod log_interval t \<noteq> 0 \<longrightarrow>
        calc_loss C t b =
          Inr (info_loss_spec (loss_params t) (mse_loss (recon_samples b) (actions_seq b))
                 (kld b) (mmd b), t))"
proof (intro conjI allI impI)
  fix v t1
  assume "calc_loss C t b = Inr (v, t1)"
  then show "v = info_loss_spec (loss_params t) (mse_loss (recon_samples b) (actions_seq b))
            (kld b) (mmd b)"
    by (rule calc_loss_value)
next
  assume "log_interval t \<noteq> 0 \<and> learn_steps t mod log_interval t \<noteq> 0"
  then show "calc_loss C t b =
          Inr (info_loss_spec (loss_params t) (mse_loss (recon_samples b) (actions_seq b))
                 (kld b) (mmd b), t)"
    by (simp add: calc_loss_no_logging)
qed

theorem calc_loss_composite_witness:
  "calc_loss ex_collab (ex_trainer\<lparr>log_interval := 5, learn_steps := 1\<rparr>) ex_batch =
     Inr (507 / 100, ex_trainer\<lparr>log_interval := 5, learn_steps := 1\<rparr>)"
proof -
  let ?t = "ex_trainer\<lparr>log_interval := 5, learn_steps := 1\<rparr>"
  have m: "mse_loss (recon_samples ex_batch) (actions_seq ex_batch) = 1"
    by (simp add: ex_batch_def mse_loss_def)
  have p: "loss_params ?t = ex_params"
    by (simp add: ex_trainer_def init_trainer_def)
  have k: "kld ex_batch = 1" "mmd ex_batch = 3"
    by (simp_all add: ex_batch_def)
  have v: "info_loss_spec (loss_params ?t)
      (mse_loss (recon_samples ex_batch) (actions_seq ex_batch)) (kld ex_batch) (mmd ex_batch)
      = 507 / 100"
    unfolding m p k by (simp add: info_loss_spec_def ex_params_def)
  have h: "log_interval ?t \<noteq> 0 \<and> learn_steps ?t mod log_interval ?t \<noteq> 0"
    by simp
  have "calc_loss ex_collab ?t ex_batch =
     Inr (info_loss_spec (loss_params ?t)
      (mse_loss (recon_samples ex_batch) (actions_seq ex_batch)) (kld ex_batch) (mmd ex_batch), ?t)"
    using calc_loss_composite [of ex_collab ?t ex_batch, THEN conjunct2, THEN mp, OF h] .
  then show ?thesis unfolding v .
qed

subsection \<open>Plotting the mode map\<close>


lemma summary_log_mode_fields [simp]:
  "mode_dim (summary_log_mode C n v t) = mode_dim t"
  "num_skills (summary_log_mode C n v t) = num_skills t"
  "learn_steps (summary_log_mode C n v t) = learn_steps t"
  "warnings (summary_log_mode C n v t) = warnings t"
  by (simp_all add: summary_log_mode_def)






lemma log_scalars_fields [simp]:
  "mode_dim (log_scalars C t b mse ki mi) = mode_dim t"
  "num_skills (log_scalars C t b mse ki mi) = num_skills t"
  "learn_steps (log_scalars C t b mse ki mi) = learn_steps t"
  "warnings (log_scalars C t b mse ki mi) = warnings t"
  by (simp_all add: log_scalars_def Let_def)

lemma log_stats_missing_figure:
  "mode_dim t \<noteq> 2 \<Longrightarrow>
     log_stats C t b mse ki mi =
       save_fig C None [''writer''] ''Mode Model''
         ((log_scalars C t b mse ki mi)\<lparr>warnings := warnings t @ [mode_dim_warning]\<rparr>)"
  by (simp add: log_stats_def plot_mode_map_def)

lemma save_fig_writer:
  "save_fig C fig [''writer''] base t =
     (case add_figure C (base @ ''mode mapping'') fig (learn_steps t) (world t) of
        Inl e \<Rightarrow> Inl e
      | Inr w \<Rightarrow> Inr (t\<lparr>world := clf C w\<rparr>))"
  by (simp add: save_fig_def split: sum.splits)

text \<open>
  C7. With a mode dimension of 3, at the first learn step (a logging interval),
  \<^verbatim>\<open>_plot_mode_map\<close> warns and returns no figure, and \<^verbatim>\<open>_calc_loss\<close> hands the
  missing figure to the writer; with a writer that renders what it is given the learn
  step raises and the training loop ends.
\<close>

theorem missing_figure_reaches_writer:
  "plot_mode_map (ex_trainer\<lparr>mode_dim := 3\<rparr>) [0] ex_mps =
      Inr (None, ex_trainer\<lparr>mode_dim := 3, warnings := [mode_dim_warning]\<rparr>)
   \<and> learn_step ex_collab (ex_trainer\<lparr>mode_dim := 3\<rparr>) = Inl AttributeError
   \<and> train ex_collab (ex_trainer\<lparr>mode_dim := 3\<rparr>) = Inl AttributeError"
proof -
  let ?t = "ex_trainer\<lparr>mode_dim := 3\<rparr>"
  have p: "plot_mode_map ?t [0] ex_mps =
      Inr (None, ex_trainer\<lparr>mode_dim := 3, warnings := [mode_dim_warning]\<rparr>)"
    by (simp add: plot_mode_map_def ex_trainer_def init_trainer_def)
  have fw: "forward ex_collab bs sqs w = (ex_batch, w)" for bs sqs w
    by (simp add: ex_collab_def)
  have w0: "world ex_trainer = 0"
    by (simp add: ex_trainer_def init_trainer_def)
  have af: "add_figure ex_collab tag None st w = Inl AttributeError" for tag st w
    by (simp add: ex_collab_def)
  have iv: "is_interval (log_interval ex_trainer) (learn_steps ex_trainer) = Inr True"
    by (simp add: is_interval_def ex_trainer_def init_trainer_def)
  have md: "mode_dim (ex_trainer\<lparr>mode_dim := 3, world := 0\<rparr>) \<noteq> 2"
    by simp
  have lg: "log_stats ex_collab (ex_trainer\<lparr>mode_dim := 3, world := 0\<rparr>) ex_batch m k mm
      = Inl AttributeError" for m k mm
    by (simp only: log_stats_missing_figure [OF md] save_fig_writer af sum.case)
  have cl: "calc_loss ex_collab (?t\<lparr>world := 0\<rparr>) ex_batch = Inl AttributeError"
    by (simp add: calc_loss_def Let_def iv lg)
  have ls: "learn_step ex_collab ?t = Inl AttributeError"
    using cl by (simp add: learn_step_def fw w0)
  have ts: "nat (train_steps ex_trainer) = Suc 0"
    by (simp add: ex_trainer_def init_trainer_def)
  have "train ex_collab ?t = Inl AttributeError"
    by (simp add: train_def ts ls)
  then show ?thesis using p ls by simp
qed

subsection \<open>The action sampler\<close>

text \<open>
  C2. \<^verbatim>\<open>__call__\<close> passes one positional argument to \<^verbatim>\<open>_get_action\<close>, which
  requires two: every call raises \<^verbatim>\<open>TypeError\<close> and no action is decoded.
\<close>

theorem sampler_call_raises: "sampler_call s state_rep = Inl TypeError"
  by (simp add: sampler_call_def sampler_get_action_def)

text \<open>
  C8. \<^verbatim>\<open>set_mode_next\<close> changes the pending mode only, to the given mode moved to
  the sampler's device; \<^verbatim>\<open>update_mode_to_next\<close> changes the current mode only, to
  the pending mode.
\<close>

theorem set_mode_next_frame:
  "mode (set_mode_next m s) = mode s
   \<and> mode_next (set_mode_next m s) = Some (to_device m (device s))
   \<and> mode_model (set_mode_next m s) = mode_model s
   \<and> device (set_mode_next m s) = device s
   \<and> mode (update_mode_to_next (set_mode_next m s)) = Some (to_device m (device s))
   \<and> mode_next (update_mode_to_next s) = mode_next s
   \<and> mode (update_mode_to_next s) = mode_next s
   \<and> mode_model (update_mode_to_next s) = mode_model s
   \<and> device (update_mode_to_next s) = device s
   \<and> t_data (to_device m (device s)) = t_data m"
  by (simp add: set_mode_next_def update_mode_to_next_def to_device_def)

end
